theory Spec2Isabelle
  imports Main "HOL-Library.Word"
begin

section \<open>Shared payloads and the handles that reference them\<close>

text \<open>
  The two handle classes of \<^verbatim>\<open>examples/datamodel\<close>, \<^verbatim>\<open>ExampleHit\<close> and
  \<^verbatim>\<open>ExampleReferencingType\<close>, hold one member, the raw pointer \<^verbatim>\<open>m_obj\<close> to a
  reference-counted payload object. A pointer is an address or \<^verbatim>\<open>nullptr\<close>; the
  free store is a partial map from addresses to the objects that are alive.
  Dereferencing a null pointer, touching an object that has been deleted, or moving
  an iterator out of its vector is undefined behaviour in C++; the model makes each
  of them a \<open>fault\<close> value, so that no operation hides one.
\<close>

type_synonym addr = nat

datatype fault = NullDereference | UseAfterFree | IteratorOutOfRange

text \<open>\<^verbatim>\<open>albers::ObjectID\<close>: the pair of an index and a collection id.\<close>

record ObjectID =
  oid_index :: int
  oid_collectionID :: int

text \<open>
  A payload object: the members of the base class (\<^verbatim>\<open>id\<close>, the reference
  counter) and the \<^verbatim>\<open>data\<close> block of the concrete class. Classes with further
  members extend the record. The field \<^verbatim>\<open>id\<close> is called \<open>obj_id\<close> here, since
  \<open>id\<close> is the identity function of HOL.
\<close>

record 'd Obj =
  obj_id :: ObjectID
  ref_counter :: int
  data :: 'd

type_synonym 'o heap = "addr \<rightharpoonup> 'o"

text \<open>The value of a handle is the value of its member \<^verbatim>\<open>m_obj\<close>.\<close>

type_synonym handle = "addr option"

text \<open>
  Modelled from the spec: the base class of the payloads (with \<^verbatim>\<open>acquire\<close> and
  \<^verbatim>\<open>release\<close>) is declared in a header that is not in src. The spec gives a payload
  a reference count that copying a handle increments and destroying a handle
  decrements, the payload being destroyed exactly when the count reaches zero.
  The counter is an unbounded integer here.
\<close>

definition acquire :: "addr \<Rightarrow> ('d, 'm) Obj_scheme heap \<Rightarrow> fault + ('d, 'm) Obj_scheme heap" where
  "acquire p H =
     (case H p of
        None \<Rightarrow> Inl UseAfterFree
      | Some ob \<Rightarrow> Inr (H(p \<mapsto> ob\<lparr>ref_counter := ref_counter ob + 1\<rparr>)))"

definition release :: "addr \<Rightarrow> ('d, 'm) Obj_scheme heap \<Rightarrow> fault + ('d, 'm) Obj_scheme heap" where
  "release p H =
     (case H p of
        None \<Rightarrow> Inl UseAfterFree
      | Some ob \<Rightarrow>
          Inr (if ref_counter ob - 1 = 0 then H(p := None)
               else H(p \<mapsto> ob\<lparr>ref_counter := ref_counter ob - 1\<rparr>)))"

text \<open>
  The members below are textually the same in \<^verbatim>\<open>ExampleHit.cc\<close> and
  \<^verbatim>\<open>ExampleReferencingType.cc\<close> up to the class name, so each is modelled once,
  over any payload record.

  The copy constructor: \<^verbatim>\<open>m_obj(other.m_obj)\<close>, then \<^verbatim>\<open>m_obj->acquire()\<close> with no
  null check.
\<close>

definition handle_copy :: "handle \<Rightarrow> ('d, 'm) Obj_scheme heap \<Rightarrow> fault + (handle \<times> ('d, 'm) Obj_scheme heap)" where
  "handle_copy other H =
     (case other of
        None \<Rightarrow> Inl NullDereference
      | Some p \<Rightarrow> (case acquire p H of Inl e \<Rightarrow> Inl e | Inr H' \<Rightarrow> Inr (other, H')))"

text \<open>
  \<^verbatim>\<open>operator=\<close>: \<^verbatim>\<open>if (m_obj != nullptr) m_obj->release(); m_obj = other.m_obj;\<close>.
  The first argument is the value of \<^verbatim>\<open>this->m_obj\<close> before the call; the result is
  its value afterwards, with the store.
\<close>

definition handle_assign :: "handle \<Rightarrow> handle \<Rightarrow> ('d, 'm) Obj_scheme heap \<Rightarrow> fault + (handle \<times> ('d, 'm) Obj_scheme heap)" where
  "handle_assign this other H =
     (case this of
        None \<Rightarrow> Inr (other, H)
      | Some q \<Rightarrow> (case release q H of Inl e \<Rightarrow> Inl e | Inr H' \<Rightarrow> Inr (other, H')))"

text \<open>The constructor from a payload pointer: acquires unless the pointer is null.\<close>

definition handle_from_obj :: "handle \<Rightarrow> ('d, 'm) Obj_scheme heap \<Rightarrow> fault + (handle \<times> ('d, 'm) Obj_scheme heap)" where
  "handle_from_obj obj H =
     (case obj of
        None \<Rightarrow> Inr (None, H)
      | Some p \<Rightarrow> (case acquire p H of Inl e \<Rightarrow> Inl e | Inr H' \<Rightarrow> Inr (obj, H')))"

text \<open>The destructor: \<^verbatim>\<open>if (m_obj != nullptr) m_obj->release();\<close>.\<close>

definition handle_destroy :: "handle \<Rightarrow> ('d, 'm) Obj_scheme heap \<Rightarrow> fault + ('d, 'm) Obj_scheme heap" where
  "handle_destroy this H = (case this of None \<Rightarrow> Inr H | Some p \<Rightarrow> release p H)"

definition isAvailable :: "handle \<Rightarrow> bool" where
  "isAvailable this = (if this \<noteq> None then True else False)"

text \<open>Reading through \<^verbatim>\<open>m_obj->\<close>.\<close>

definition deref :: "handle \<Rightarrow> 'o heap \<Rightarrow> fault + 'o" where
  "deref this H =
     (case this of
        None \<Rightarrow> Inl NullDereference
      | Some p \<Rightarrow> (case H p of None \<Rightarrow> Inl UseAfterFree | Some ob \<Rightarrow> Inr ob))"

definition getObjectID :: "handle \<Rightarrow> ('d, 'm) Obj_scheme heap \<Rightarrow> fault + ObjectID" where
  "getObjectID this H = (case deref this H of Inl e \<Rightarrow> Inl e | Inr ob \<Rightarrow> Inr (obj_id ob))"

text \<open>
  Modelled from the spec: the copy constructor of the payload classes is in headers
  that are not in src. By the spec the payload of a clone carries the field values
  of its source and its count starts at 1, which the handle constructor reaches by
  one \<^verbatim>\<open>acquire\<close> from 0. All members but the counter and the identity are copied;
  the identity given to the copy is not stated by the spec and is a parameter.
\<close>

definition Obj_copy :: "ObjectID \<Rightarrow> ('d, 'm) Obj_scheme \<Rightarrow> ('d, 'm) Obj_scheme" where
  "Obj_copy nid ob = ob\<lparr>obj_id := nid, ref_counter := 0\<rparr>"

text \<open>
  \<^verbatim>\<open>clone()\<close>: \<^verbatim>\<open>return {new Obj(*m_obj)};\<close>. The address \<open>q\<close> is the one the
  allocator returns for the new object; the allocator only ever returns an address
  at which nothing is alive.
\<close>

definition handle_clone :: "handle \<Rightarrow> addr \<Rightarrow> ObjectID \<Rightarrow> ('d, 'm) Obj_scheme heap \<Rightarrow> fault + (handle \<times> ('d, 'm) Obj_scheme heap)" where
  "handle_clone this q nid H =
     (case deref this H of
        Inl e \<Rightarrow> Inl e
      | Inr ob \<Rightarrow> handle_from_obj (Some q) (H(q \<mapsto> Obj_copy nid ob)))"

text \<open>
  Modelled from the spec: the generated setters are inline in the class headers,
  which are not in src. A field mutation through a handle rewrites the payload
  the handle points at, and nothing else.
\<close>

definition handle_update :: "handle \<Rightarrow> ('o \<Rightarrow> 'o) \<Rightarrow> 'o heap \<Rightarrow> fault + 'o heap" where
  "handle_update this f H =
     (case this of
        None \<Rightarrow> Inl NullDereference
      | Some p \<Rightarrow> (case H p of None \<Rightarrow> Inl UseAfterFree | Some ob \<Rightarrow> Inr (H(p \<mapsto> f ob))))"

subsection \<open>ExampleHit\<close>

text \<open>A \<^verbatim>\<open>double\<close> is carried as its 64-bit pattern; no arithmetic is done on it.\<close>

type_synonym double = "64 word"

record ExampleHitData =
  hit_x :: double
  hit_y :: double
  hit_z :: double
  hit_energy :: double

type_synonym ExampleHitObj = "ExampleHitData Obj"

text \<open>
  Modelled from the spec: the default constructor of the payload class is in a header
  that is not in src. By the spec a default-constructed handle has a fresh payload
  with count 1, reached by the one \<^verbatim>\<open>acquire\<close> of the handle constructor; the
  data block is value-initialised and the identity of the new payload is a parameter.
\<close>

definition ExampleHitObj_new :: "ObjectID \<Rightarrow> ExampleHitObj" where
  "ExampleHitObj_new nid =
     \<lparr>obj_id = nid, ref_counter = 0,
      data = \<lparr>hit_x = 0, hit_y = 0, hit_z = 0, hit_energy = 0\<rparr>\<rparr>"

text \<open>\<^verbatim>\<open>ExampleHit::ExampleHit()\<close>, with \<open>q\<close> the address the allocator returns.\<close>

definition ExampleHit_default :: "addr \<Rightarrow> ObjectID \<Rightarrow> ExampleHitObj heap \<Rightarrow> fault + (handle \<times> ExampleHitObj heap)" where
  "ExampleHit_default q nid H =
     (case acquire q (H(q \<mapsto> ExampleHitObj_new nid)) of
        Inl e \<Rightarrow> Inl e
      | Inr H' \<Rightarrow> Inr (Some q, H'))"

text \<open>\<^verbatim>\<open>ExampleHit::ExampleHit(double x, double y, double z, double energy)\<close>.\<close>

definition ExampleHit_values :: "double \<Rightarrow> double \<Rightarrow> double \<Rightarrow> double \<Rightarrow> addr \<Rightarrow> ObjectID \<Rightarrow> ExampleHitObj heap \<Rightarrow> fault + (handle \<times> ExampleHitObj heap)" where
  "ExampleHit_values x y z energy q nid H =
     (case acquire q (H(q \<mapsto> ExampleHitObj_new nid)) of
        Inl e \<Rightarrow> Inl e
      | Inr H' \<Rightarrow>
          (case handle_update (Some q)
                  (\<lambda>ob. ob\<lparr>data := \<lparr>hit_x = x, hit_y = y, hit_z = z, hit_energy = energy\<rparr>\<rparr>) H' of
             Inl e \<Rightarrow> Inl e
           | Inr H'' \<Rightarrow> Inr (Some q, H'')))"

text \<open>
  The property that every payload alive in the store is counted at least once; the
  operations above keep it (lemmas below).
\<close>

definition counts_positive :: "('d, 'm) Obj_scheme heap \<Rightarrow> bool" where
  "counts_positive H = (\<forall>p ob. H p = Some ob \<longrightarrow> 0 < ref_counter ob)"

subsection \<open>ExampleReferencingType and its relation ranges\<close>

text \<open>Running one fallible step after another; the first fault ends the run.\<close>

definition bindF :: "fault + 'a \<Rightarrow> ('a \<Rightarrow> fault + 'b) \<Rightarrow> fault + 'b" where
  "bindF m k = (case m of Inl e \<Rightarrow> Inl e | Inr v \<Rightarrow> k v)"

text \<open>
  Modelled from the spec: \<^verbatim>\<open>ExampleReferencingTypeData\<close> and
  \<^verbatim>\<open>ExampleReferencingTypeObj\<close> are declared in headers that are not in src. The
  source reads \<^verbatim>\<open>m_obj->data.Clusters_begin\<close>, \<^verbatim>\<open>m_obj->data.Clusters_end\<close> and the
  pointer \<^verbatim>\<open>m_obj->m_Clusters\<close> to a \<^verbatim>\<open>std::vector\<close> (the same for \<^verbatim>\<open>Refs\<close>); the spec
  gives a relation range as a pair of indices \<open>[begin, end)\<close> into a vector that the
  payload refers to without owning it. The indices are integers here, and
  \<^verbatim>\<open>Clusters_end-1\<close> is integer subtraction. The data fields carry the prefix
  \<open>data_\<close>, since the accessors of the handle have the same names.
\<close>

record ExampleReferencingTypeData =
  data_Clusters_begin :: int
  data_Clusters_end :: int
  data_Refs_begin :: int
  data_Refs_end :: int

record ExampleReferencingTypeObj = "ExampleReferencingTypeData Obj" +
  m_Clusters :: "addr option"
  m_Refs :: "addr option"

text \<open>
  The part of the free store these handles touch: the payloads, and the vectors the
  payloads point to. Two payloads whose \<^verbatim>\<open>m_Clusters\<close> hold the same address share
  one vector. An \<^verbatim>\<open>ExampleCluster\<close> is a value of type \<open>'c\<close>: that class is not in
  src, and what copying one into the vector does to the cluster's own payload is
  outside this state.
\<close>

record 'c world =
  objs :: "ExampleReferencingTypeObj heap"
  vecs_Clusters :: "'c list heap"
  vecs_Refs :: "handle list heap"

text \<open>
  Modelled from the spec: the declaration of the index fields is in a header that is
  not in src. An index counts elements of a vector; \<^verbatim>\<open>++\<close> on a stored index is
  taken as on a 32-bit \<^verbatim>\<open>unsigned int\<close>: one more, and 0 after 4294967295.
\<close>

definition index_succ :: "int \<Rightarrow> int" where
  "index_succ i = (i + 1) mod 4294967296"

text \<open>
  An iterator into a vector is its offset from \<^verbatim>\<open>begin()\<close>. \<^verbatim>\<open>std::advance\<close> (and
  \<^verbatim>\<open>++\<close>, which advances by one) is defined only while the result stays between
  \<^verbatim>\<open>begin()\<close> and \<^verbatim>\<open>end()\<close>.
\<close>

definition advance :: "'a list \<Rightarrow> int \<Rightarrow> int \<Rightarrow> fault + int" where
  "advance v it n =
     (if 0 \<le> it + n \<and> it + n \<le> int (length v) then Inr (it + n)
      else Inl IteratorOutOfRange)"

definition Clusters_begin :: "handle \<Rightarrow> 'c world \<Rightarrow> fault + int" where
  "Clusters_begin this W =
     (case deref this (objs W) of
        Inl e \<Rightarrow> Inl e
      | Inr ob \<Rightarrow>
          (case deref (m_Clusters ob) (vecs_Clusters W) of
             Inl e \<Rightarrow> Inl e
           | Inr v \<Rightarrow> advance v 0 (data_Clusters_begin (data ob))))"

text \<open>
  \<^verbatim>\<open>Clusters_end()\<close>: \<^verbatim>\<open>std::advance(ret_value, m_obj->data.Clusters_end-1);\<close>
  \<^verbatim>\<open>return ++ret_value;\<close>.
\<close>

definition Clusters_end :: "handle \<Rightarrow> 'c world \<Rightarrow> fault + int" where
  "Clusters_end this W =
     (case deref this (objs W) of
        Inl e \<Rightarrow> Inl e
      | Inr ob \<Rightarrow>
          (case deref (m_Clusters ob) (vecs_Clusters W) of
             Inl e \<Rightarrow> Inl e
           | Inr v \<Rightarrow>
               (case advance v 0 (data_Clusters_end (data ob) - 1) of
                  Inl e \<Rightarrow> Inl e
                | Inr ret_value \<Rightarrow> advance v ret_value 1)))"

text \<open>
  \<^verbatim>\<open>addClusters\<close>: \<^verbatim>\<open>m_obj->m_Clusters->push_back(component);\<close>
  \<^verbatim>\<open>m_obj->data.Clusters_end++;\<close>.
\<close>

definition addClusters :: "handle \<Rightarrow> 'c \<Rightarrow> 'c world \<Rightarrow> fault + 'c world" where
  "addClusters this component W =
     (case deref this (objs W) of
        Inl e \<Rightarrow> Inl e
      | Inr ob \<Rightarrow>
          (case m_Clusters ob of
             None \<Rightarrow> Inl NullDereference
           | Some a \<Rightarrow>
               (case vecs_Clusters W a of
                  None \<Rightarrow> Inl UseAfterFree
                | Some v \<Rightarrow>
                    (case handle_update this
                            (\<lambda>pl. pl\<lparr>data := (data pl)\<lparr>data_Clusters_end := index_succ (data_Clusters_end (data pl))\<rparr>\<rparr>)
                            (objs W) of
                       Inl e \<Rightarrow> Inl e
                     | Inr H' \<Rightarrow>
                         Inr (W\<lparr>objs := H', vecs_Clusters := (vecs_Clusters W)(a \<mapsto> v @ [component])\<rparr>)))))"

definition Refs_begin :: "handle \<Rightarrow> 'c world \<Rightarrow> fault + int" where
  "Refs_begin this W =
     (case deref this (objs W) of
        Inl e \<Rightarrow> Inl e
      | Inr ob \<Rightarrow>
          (case deref (m_Refs ob) (vecs_Refs W) of
             Inl e \<Rightarrow> Inl e
           | Inr v \<Rightarrow> advance v 0 (data_Refs_begin (data ob))))"

definition Refs_end :: "handle \<Rightarrow> 'c world \<Rightarrow> fault + int" where
  "Refs_end this W =
     (case deref this (objs W) of
        Inl e \<Rightarrow> Inl e
      | Inr ob \<Rightarrow>
          (case deref (m_Refs ob) (vecs_Refs W) of
             Inl e \<Rightarrow> Inl e
           | Inr v \<Rightarrow>
               (case advance v 0 (data_Refs_end (data ob) - 1) of
                  Inl e \<Rightarrow> Inl e
                | Inr ret_value \<Rightarrow> advance v ret_value 1)))"

text \<open>
  \<^verbatim>\<open>addRefs\<close>: the component is an \<^verbatim>\<open>ExampleReferencingType\<close>, so \<^verbatim>\<open>push_back\<close>
  copies it with the copy constructor above, which acquires its payload; then
  \<^verbatim>\<open>m_obj->data.Refs_end++\<close>.
\<close>

definition addRefs :: "handle \<Rightarrow> handle \<Rightarrow> 'c world \<Rightarrow> fault + 'c world" where
  "addRefs this component W =
     (case deref this (objs W) of
        Inl e \<Rightarrow> Inl e
      | Inr ob \<Rightarrow>
          (case m_Refs ob of
             None \<Rightarrow> Inl NullDereference
           | Some a \<Rightarrow>
               (case vecs_Refs W a of
                  None \<Rightarrow> Inl UseAfterFree
                | Some v \<Rightarrow>
                    (case handle_copy component (objs W) of
                       Inl e \<Rightarrow> Inl e
                     | Inr (element, H1) \<Rightarrow>
                         (case handle_update this
                                 (\<lambda>pl. pl\<lparr>data := (data pl)\<lparr>data_Refs_end := index_succ (data_Refs_end (data pl))\<rparr>\<rparr>)
                                 H1 of
                            Inl e \<Rightarrow> Inl e
                          | Inr H2 \<Rightarrow>
                              Inr (W\<lparr>objs := H2, vecs_Refs := (vecs_Refs W)(a \<mapsto> v @ [element])\<rparr>))))))"

text \<open>
  Reading a relation, as \<^verbatim>\<open>tests/write_dummy.cpp\<close> does:
  \<^verbatim>\<open>for (auto it = p.X_begin(), end = p.X_end(); it != end; ++it)\<close> with \<^verbatim>\<open>*it\<close> read
  in the body. The loop stops only when the two iterators are equal; reading at or
  moving past \<^verbatim>\<open>end()\<close> of the vector is a fault.
\<close>

function traverse :: "'a list \<Rightarrow> int \<Rightarrow> int \<Rightarrow> fault + 'a list" where
  "traverse v it end_it =
     (if it = end_it then Inr []
      else if 0 \<le> it \<and> it < int (length v)
        then (case traverse v (it + 1) end_it of
                Inl e \<Rightarrow> Inl e
              | Inr xs \<Rightarrow> Inr (v ! nat it # xs))
      else Inl IteratorOutOfRange)"
  by pat_completeness auto
termination
  by (relation "measure (\<lambda>(v, it, end_it). nat (int (length v) - it))") auto

declare traverse.simps [simp del]

definition Clusters_range :: "handle \<Rightarrow> 'c world \<Rightarrow> fault + 'c list" where
  "Clusters_range this W =
     (case Clusters_begin this W of
        Inl e \<Rightarrow> Inl e
      | Inr it \<Rightarrow>
          (case Clusters_end this W of
             Inl e \<Rightarrow> Inl e
           | Inr end_it \<Rightarrow>
               (case deref this (objs W) of
                  Inl e \<Rightarrow> Inl e
                | Inr ob \<Rightarrow>
                    (case deref (m_Clusters ob) (vecs_Clusters W) of
                       Inl e \<Rightarrow> Inl e
                     | Inr v \<Rightarrow> traverse v it end_it))))"

section \<open>The schema evolution registry\<close>

text \<open>
  \<^verbatim>\<open>include/podio/SchemaEvolution.h\<close> declares the registry: its types, its two
  members and the signatures of its operations. \<^verbatim>\<open>SchemaVersionT\<close> is \<^verbatim>\<open>uint32_t\<close>.
\<close>

type_synonym SchemaVersionT = "32 word"

datatype Priority = AutoGenerated | UserDefined

record MapIndex =
  currentVersion :: SchemaVersionT
  index :: nat

text \<open>
  The tombstone \<^verbatim>\<open>constexpr static size_t NoEvolutionAvailable = -1u\<close>: the unsigned
  int \<open>2^32 - 1\<close>, widened to \<^verbatim>\<open>size_t\<close>.
\<close>

definition NoEvolutionAvailable :: nat where
  "NoEvolutionAvailable = 4294967295"

text \<open>
  An evolution function takes buffers and a version and returns buffers. It is a
  \<^verbatim>\<open>std::function\<close>, so it may also act on the rest of the program (allocate, count
  its own calls): \<open>'w\<close> is the state of everything outside the registry, and a
  function maps it to a new one. The buffers type is only declared in the header;
  it is the type variable \<open>'b\<close>.
\<close>

type_synonym ('b, 'w) EvolutionFuncT = "'b \<Rightarrow> SchemaVersionT \<Rightarrow> 'w \<Rightarrow> 'b \<times> 'w"

text \<open>
  The version map of one datatype: a vector whose index is the version from which
  the evolution starts. A slot is empty or holds a function; the slot also keeps
  the priority tier the function was registered with, which the conflict rules of
  the spec decide on (the element type in the header is the function alone).
\<close>

type_synonym ('b, 'w) EvolFuncVersionMapT = "(Priority \<times> ('b, 'w) EvolutionFuncT) option list"

record ('b, 'w) SchemaEvolution =
  m_versionMapIndices :: "string \<rightharpoonup> MapIndex"
  m_evolutionFuncs :: "('b, 'w) EvolFuncVersionMapT list"

text \<open>
  The failures the spec names for the registry. A second registration in a slot at
  the same tier is left open by the spec, which advises to reject it; that is
  \<open>DuplicateRegistrationError\<close>. For a request with no registered function the
  spec's testable property names \<open>LookupMiss\<close>.
\<close>

datatype evolution_error =
  VersionConflictError | PriorityConflictError | DuplicateRegistrationError | LookupMiss

text \<open>\<^verbatim>\<open>noOpSchemaEvolution\<close>: returns the buffers unchanged.\<close>

definition noOpSchemaEvolution :: "('b, 'w) EvolutionFuncT" where
  "noOpSchemaEvolution buffers v w = (buffers, w)"

text \<open>The table an entry points to, if it points to one.\<close>

definition getTable :: "('b, 'w) SchemaEvolution \<Rightarrow> MapIndex \<Rightarrow> ('b, 'w) EvolFuncVersionMapT option" where
  "getTable r mi =
     (if index mi = NoEvolutionAvailable \<or> length (m_evolutionFuncs r) \<le> index mi then None
      else Some (m_evolutionFuncs r ! index mi))"

definition getSlot :: "('b, 'w) EvolFuncVersionMapT \<Rightarrow> SchemaVersionT \<Rightarrow> (Priority \<times> ('b, 'w) EvolutionFuncT) option" where
  "getSlot t v = (if unat v < length t then t ! unat v else None)"

text \<open>Writing a slot, the vector being resized with empty slots when it is too short.\<close>

definition setSlot :: "('b, 'w) EvolFuncVersionMapT \<Rightarrow> SchemaVersionT \<Rightarrow> Priority \<times> ('b, 'w) EvolutionFuncT \<Rightarrow> ('b, 'w) EvolFuncVersionMapT" where
  "setSlot t v entry = (t @ replicate (Suc (unat v) - length t) None)[unat v := Some entry]"

definition lookupFunc :: "('b, 'w) SchemaEvolution \<Rightarrow> MapIndex \<Rightarrow> SchemaVersionT \<Rightarrow> (Priority \<times> ('b, 'w) EvolutionFuncT) option" where
  "lookupFunc r mi v = (case getTable r mi of None \<Rightarrow> None | Some t \<Rightarrow> getSlot t v)"

text \<open>
  Modelled from the spec: \<^verbatim>\<open>SchemaEvolution::evolveBuffers\<close> is declared in the
  header; its body is not in src. By the spec (and the comment on the declaration),
  when \<open>fromVersion\<close> is the registered current version of the type the buffers are
  returned as they are; otherwise the function registered for the type and version
  is looked up and called once; a request with no registered function fails with
  \<open>LookupMiss\<close> and never falls back to the identity.
\<close>

definition evolveBuffers :: "('b, 'w) SchemaEvolution \<Rightarrow> 'b \<Rightarrow> SchemaVersionT \<Rightarrow> string \<Rightarrow> 'w \<Rightarrow> (evolution_error + 'b) \<times> 'w" where
  "evolveBuffers r oldBuffers fromVersion collType w =
     (case m_versionMapIndices r collType of
        None \<Rightarrow> (Inl LookupMiss, w)
      | Some mi \<Rightarrow>
          if fromVersion = currentVersion mi then (Inr oldBuffers, w)
          else (case lookupFunc r mi fromVersion of
                  None \<Rightarrow> (Inl LookupMiss, w)
                | Some (p, evolutionFunc) \<Rightarrow>
                    (case evolutionFunc oldBuffers fromVersion w of
                       (newBuffers, w') \<Rightarrow> (Inr newBuffers, w'))))"

text \<open>
  Modelled from the spec: \<^verbatim>\<open>SchemaEvolution::registerEvolutionFunc\<close> is declared in
  the header; its body is not in src. By the spec the current version must be the
  same in every registration of a type (\<open>VersionConflictError\<close>); a
  \<open>UserDefined\<close> registration overrides an \<open>AutoGenerated\<close> function in the slot; an
  \<open>AutoGenerated\<close> registration never overrides a \<open>UserDefined\<close> one
  (\<open>PriorityConflictError\<close>); a slot holds one function per tier. A failed call
  leaves the registry as it was. The result is the outcome paired with the registry
  after the call.
\<close>

definition registerEvolutionFunc ::
  "string \<Rightarrow> SchemaVersionT \<Rightarrow> SchemaVersionT \<Rightarrow> ('b, 'w) EvolutionFuncT \<Rightarrow> Priority \<Rightarrow>
   ('b, 'w) SchemaEvolution \<Rightarrow> (evolution_error + unit) \<times> ('b, 'w) SchemaEvolution" where
  "registerEvolutionFunc collType fromVersion curVersion evolutionFunc priority r =
     (case m_versionMapIndices r collType of
        None \<Rightarrow>
          (Inr (),
           r\<lparr>m_versionMapIndices := (m_versionMapIndices r)
                 (collType \<mapsto> \<lparr>currentVersion = curVersion, index = length (m_evolutionFuncs r)\<rparr>),
             m_evolutionFuncs := m_evolutionFuncs r @ [setSlot [] fromVersion (priority, evolutionFunc)]\<rparr>)
      | Some mi \<Rightarrow>
          if currentVersion mi \<noteq> curVersion then (Inl VersionConflictError, r)
          else
            (case getTable r mi of
               None \<Rightarrow>
                 (Inr (),
                  r\<lparr>m_versionMapIndices := (m_versionMapIndices r)
                        (collType \<mapsto> mi\<lparr>index := length (m_evolutionFuncs r)\<rparr>),
                    m_evolutionFuncs := m_evolutionFuncs r @ [setSlot [] fromVersion (priority, evolutionFunc)]\<rparr>)
             | Some t \<Rightarrow>
                 (case getSlot t fromVersion of
                    None \<Rightarrow>
                      (Inr (),
                       r\<lparr>m_evolutionFuncs := (m_evolutionFuncs r)
                             [index mi := setSlot t fromVersion (priority, evolutionFunc)]\<rparr>)
                  | Some (p, f) \<Rightarrow>
                      if priority = UserDefined \<and> p = AutoGenerated
                        then (Inr (),
                              r\<lparr>m_evolutionFuncs := (m_evolutionFuncs r)
                                    [index mi := setSlot t fromVersion (priority, evolutionFunc)]\<rparr>)
                      else if priority = AutoGenerated \<and> p = UserDefined
                        then (Inl PriorityConflictError, r)
                      else (Inl DuplicateRegistrationError, r))))"

text \<open>
  A slot is open to the pair of registrations with current version \<open>curVersion\<close>
  when the type is unknown, or known with that current version and the slot is empty
  or holds an \<open>AutoGenerated\<close> function.
\<close>

definition slotOpen :: "('b, 'w) SchemaEvolution \<Rightarrow> string \<Rightarrow> SchemaVersionT \<Rightarrow> SchemaVersionT \<Rightarrow> bool" where
  "slotOpen r collType fromVersion curVersion =
     (case m_versionMapIndices r collType of
        None \<Rightarrow> True
      | Some mi \<Rightarrow>
          currentVersion mi = curVersion \<and>
          (case lookupFunc r mi fromVersion of
             None \<Rightarrow> True
           | Some (p, f) \<Rightarrow> p = AutoGenerated))"

section \<open>Concrete stores and registries for the examples\<close>

definition untracked :: ObjectID where
  "untracked = \<lparr>oid_index = - 1, oid_collectionID = - 1\<rparr>"

definition hitP :: ExampleHitObj where
  "hitP = \<lparr>obj_id = \<lparr>oid_index = 0, oid_collectionID = 7\<rparr>, ref_counter = 1,
           data = \<lparr>hit_x = 1, hit_y = 2, hit_z = 3, hit_energy = 4\<rparr>\<rparr>"

definition hitQ :: ExampleHitObj where
  "hitQ = \<lparr>obj_id = \<lparr>oid_index = 1, oid_collectionID = 7\<rparr>, ref_counter = 1,
           data = \<lparr>hit_x = 5, hit_y = 6, hit_z = 7, hit_energy = 8\<rparr>\<rparr>"

definition recE :: ExampleReferencingTypeObj where
  "recE = \<lparr>obj_id = \<lparr>oid_index = 0, oid_collectionID = 3\<rparr>, ref_counter = 1,
           data = \<lparr>data_Clusters_begin = 0, data_Clusters_end = 0,
                   data_Refs_begin = 0, data_Refs_end = 0\<rparr>,
           m_Clusters = Some 0, m_Refs = Some 0\<rparr>"

definition recF :: "int \<Rightarrow> int \<Rightarrow> ExampleReferencingTypeObj" where
  "recF b e = \<lparr>obj_id = \<lparr>oid_index = 1, oid_collectionID = 3\<rparr>, ref_counter = 1,
           data = \<lparr>data_Clusters_begin = b, data_Clusters_end = e,
                   data_Refs_begin = 0, data_Refs_end = 0\<rparr>,
           m_Clusters = Some 0, m_Refs = Some 0\<rparr>"

text \<open>
  Two records at addresses 0 and 1 that share the cluster vector at address 0, the
  second with the stored range \<open>[b, e)\<close>.
\<close>

definition worldE :: "nat list \<Rightarrow> int \<Rightarrow> int \<Rightarrow> nat world" where
  "worldE v b e =
     \<lparr>objs = [0 \<mapsto> recE, 1 \<mapsto> recF b e], vecs_Clusters = [0 \<mapsto> v], vecs_Refs = [0 \<mapsto> []]\<rparr>"

definition emptyRegistry :: "(nat list, nat) SchemaEvolution" where
  "emptyRegistry = \<lparr>m_versionMapIndices = Map.empty, m_evolutionFuncs = []\<rparr>"

text \<open>Evolution functions that count their calls in the outside state.\<close>

definition countingNoOp :: "(nat list, nat) EvolutionFuncT" where
  "countingNoOp buffers v calls = (buffers, calls + 1)"

definition countingUser :: "(nat list, nat) EvolutionFuncT" where
  "countingUser buffers v calls = (buffers @ [unat v], calls + 1)"

definition trackRegistry :: "SchemaVersionT \<Rightarrow> (nat list, nat) SchemaEvolution" where
  "trackRegistry cv = snd (registerEvolutionFunc ''Track'' 1 cv countingNoOp AutoGenerated emptyRegistry)"

section \<open>Properties of the handles\<close>

lemma release_live:
  "H p = Some ob \<Longrightarrow>
   release p H = Inr (if ref_counter ob = 1 then H(p := None)
                      else H(p \<mapsto> ob\<lparr>ref_counter := ref_counter ob - 1\<rparr>))"
  by (simp add: release_def)

lemma acquire_live:
  "H p = Some ob \<Longrightarrow> acquire p H = Inr (H(p \<mapsto> ob\<lparr>ref_counter := ref_counter ob + 1\<rparr>))"
  by (simp add: acquire_def)

text \<open>Default construction gives a fresh payload with count 1.\<close>

lemma ExampleHit_default_count:
  "ExampleHit_default q nid H = Inr (Some q, H(q \<mapsto> (ExampleHitObj_new nid)\<lparr>ref_counter := 1\<rparr>))"
  by (simp add: ExampleHit_default_def acquire_def ExampleHitObj_new_def)

text \<open>Every operation keeps the payloads that are alive counted at least once.\<close>

lemma acquire_counts_positive:
  "counts_positive H \<Longrightarrow> acquire p H = Inr H' \<Longrightarrow> counts_positive H'"
  by (fastforce simp: counts_positive_def acquire_def split: option.splits if_splits)

lemma release_counts_positive:
  "counts_positive H \<Longrightarrow> release p H = Inr H' \<Longrightarrow> counts_positive H'"
  by (fastforce simp: counts_positive_def release_def split: option.splits if_splits)

lemma handle_copy_counts_positive:
  "counts_positive H \<Longrightarrow> handle_copy h H = Inr (g, H') \<Longrightarrow> counts_positive H'"
  by (auto simp: handle_copy_def split: option.splits sum.splits dest: acquire_counts_positive)

lemma handle_assign_counts_positive:
  "counts_positive H \<Longrightarrow> handle_assign a b H = Inr (g, H') \<Longrightarrow> counts_positive H'"
  by (auto simp: handle_assign_def split: option.splits sum.splits dest: release_counts_positive)

lemma handle_destroy_counts_positive:
  "counts_positive H \<Longrightarrow> handle_destroy h H = Inr H' \<Longrightarrow> counts_positive H'"
  by (auto simp: handle_destroy_def split: option.splits dest: release_counts_positive)

lemma handle_clone_counts_positive:
  "counts_positive H \<Longrightarrow> H q = None \<Longrightarrow> handle_clone h q nid H = Inr (g, H') \<Longrightarrow> counts_positive H'"
  by (auto simp: handle_clone_def handle_from_obj_def acquire_def Obj_copy_def deref_def
      counts_positive_def split: option.splits sum.splits if_splits)

text \<open>
  Claim C1. Copy assignment \<open>a = b\<close>, with \<open>a\<close> on a payload \<open>Q\<close> and \<open>b\<close> on a payload
  \<open>P\<close>, is to release \<open>Q\<close> (destroying it at zero), attach \<open>a\<close> to \<open>P\<close> and increment the
  count of \<open>P\<close>. The source releases \<open>Q\<close> and copies the pointer but never acquires
  \<open>P\<close>, which the copy constructor beside it does. With \<open>Q\<close> at address 0 and \<open>P\<close> at
  address 1, each counted once: after the assignment \<open>Q\<close> is gone and both handles
  point at \<open>P\<close>, whose count is still 1; destroying \<open>a\<close> then deletes \<open>P\<close>, and \<open>b\<close>
  is left pointing at a deleted payload.
\<close>

theorem assign_omits_acquire:
  "handle_assign (Some 0) (Some 1) [0 \<mapsto> hitQ, 1 \<mapsto> hitP] = Inr (Some 1, [1 \<mapsto> hitP])
   \<and> ref_counter hitP = 1
   \<and> handle_destroy (Some 1) [1 \<mapsto> hitP] = Inr Map.empty
   \<and> getObjectID (Some 1) (Map.empty :: ExampleHitObj heap) = Inl UseAfterFree"
  by (simp add: handle_assign_def release_def hitQ_def hitP_def handle_destroy_def
      getObjectID_def deref_def)

text \<open>
  Claim C9. For a handle \<open>h\<close> on a payload whose count is \<open>n\<close>, the self-assignment
  \<open>h = h\<close> leaves \<open>h\<close> pointing at the same payload and the count at \<open>n - 1\<close>: the old
  payload is released and the assigned one is not acquired. When \<open>n = 1\<close> the
  payload is destroyed by the assignment, and \<open>h\<close> still reports
  \<open>isAvailable() = true\<close>.
\<close>

theorem self_assign_releases:
  assumes "H p = Some ob" and "ref_counter ob = n"
  shows "handle_assign (Some p) (Some p) H =
           Inr (Some p, if n = 1 then H(p := None) else H(p \<mapsto> ob\<lparr>ref_counter := n - 1\<rparr>))
         \<and> isAvailable (Some p)"
  using assms by (simp add: handle_assign_def release_live isAvailable_def)

theorem self_assign_releases_witness:
  "handle_assign (Some 0) (Some 0) [0 \<mapsto> hitP] = Inr (Some 0, Map.empty)
   \<and> isAvailable (Some 0)
   \<and> getObjectID (Some 0) (Map.empty :: ExampleHitObj heap) = Inl UseAfterFree"
  using self_assign_releases [of "[0 \<mapsto> hitP]" 0 hitP 1]
  by (simp add: hitP_def getObjectID_def deref_def)

text \<open>
  Claim C7. For an available handle \<open>h\<close> whose payload is alive with count \<open>n\<close> (at
  least 1, since \<open>h\<close> itself is counted), copy-constructing \<open>g\<close> from \<open>h\<close> sets the
  count to \<open>n + 1\<close>; \<open>g\<close> and \<open>h\<close> are both available and return the same object id;
  destroying \<open>h\<close> brings the count back to \<open>n\<close> and leaves \<open>g\<close> a handle to the payload,
  which is still alive.
\<close>

theorem copy_shares_payload:
  assumes "H p = Some ob" and "ref_counter ob = n" and "0 < n"
  shows "handle_copy (Some p) H = Inr (Some p, H(p \<mapsto> ob\<lparr>ref_counter := n + 1\<rparr>))
         \<and> isAvailable (Some p)
         \<and> getObjectID (Some p) (H(p \<mapsto> ob\<lparr>ref_counter := n + 1\<rparr>)) = Inr (obj_id ob)
         \<and> handle_destroy (Some p) (H(p \<mapsto> ob\<lparr>ref_counter := n + 1\<rparr>)) = Inr H
         \<and> getObjectID (Some p) H = Inr (obj_id ob)"
proof -
  have "ob\<lparr>ref_counter := n\<rparr> = ob"
    using assms(2) by simp
  then have same: "H(p \<mapsto> ob\<lparr>ref_counter := n\<rparr>) = H"
    using assms(1) by (simp add: map_upd_triv)
  show ?thesis
    using assms same
    by (simp add: handle_copy_def acquire_live handle_destroy_def release_live
        isAvailable_def getObjectID_def deref_def)
qed

theorem copy_shares_payload_witness:
  "handle_copy (Some 0) [0 \<mapsto> hitP] = Inr (Some 0, [0 \<mapsto> hitP\<lparr>ref_counter := 2\<rparr>])
   \<and> isAvailable (Some 0)
   \<and> getObjectID (Some 0) [0 \<mapsto> hitP\<lparr>ref_counter := 2\<rparr>] = Inr \<lparr>oid_index = 0, oid_collectionID = 7\<rparr>
   \<and> handle_destroy (Some 0) [0 \<mapsto> hitP\<lparr>ref_counter := 2\<rparr>] = Inr [0 \<mapsto> hitP]
   \<and> getObjectID (Some 0) [0 \<mapsto> hitP] = Inr \<lparr>oid_index = 0, oid_collectionID = 7\<rparr>"
  using copy_shares_payload [of "[0 \<mapsto> hitP]" 0 hitP 1]
  by (simp add: hitP_def)

text \<open>
  Claim C6. For an available handle \<open>h\<close> on a payload that is alive, \<open>h.clone()\<close>
  returns a handle on a newly allocated payload at a different address, whose data
  block and further members equal those of the payload of \<open>h\<close> and whose count is 1;
  the payload of \<open>h\<close> is untouched by the call, and whatever is then written to the
  fields of the clone leaves the payload of \<open>h\<close> as it was.
\<close>

theorem clone_fresh_and_independent:
  assumes "H p = Some ob" and "H q = None"
  shows "handle_clone (Some p) q nid H = Inr (Some q, H(q \<mapsto> ob\<lparr>obj_id := nid, ref_counter := 1\<rparr>))
         \<and> data (ob\<lparr>obj_id := nid, ref_counter := 1\<rparr>) = data ob
         \<and> Obj.more (ob\<lparr>obj_id := nid, ref_counter := 1\<rparr>) = Obj.more ob
         \<and> ref_counter (ob\<lparr>obj_id := nid, ref_counter := 1\<rparr>) = 1
         \<and> p \<noteq> q
         \<and> (H(q \<mapsto> ob\<lparr>obj_id := nid, ref_counter := 1\<rparr>)) p = Some ob
         \<and> (\<forall>f. handle_update (Some q) f (H(q \<mapsto> ob\<lparr>obj_id := nid, ref_counter := 1\<rparr>))
                   = Inr (H(q \<mapsto> f (ob\<lparr>obj_id := nid, ref_counter := 1\<rparr>)))
                \<and> (H(q \<mapsto> f (ob\<lparr>obj_id := nid, ref_counter := 1\<rparr>))) p = Some ob)"
proof -
  from assms have ne: "p \<noteq> q" by auto
  show ?thesis
    using assms ne
    by (simp add: handle_clone_def deref_def handle_from_obj_def acquire_def Obj_copy_def
        handle_update_def)
qed

theorem clone_fresh_and_independent_witness:
  "handle_clone (Some 0) 1 untracked [0 \<mapsto> hitP]
     = Inr (Some 1, [0 \<mapsto> hitP, 1 \<mapsto> hitP\<lparr>obj_id := untracked, ref_counter := 1\<rparr>])
   \<and> handle_update (Some 1) (\<lambda>ob. ob\<lparr>data := (data ob)\<lparr>hit_energy := 9\<rparr>\<rparr>)
         [0 \<mapsto> hitP, 1 \<mapsto> hitP\<lparr>obj_id := untracked, ref_counter := 1\<rparr>]
     = Inr [0 \<mapsto> hitP,
            1 \<mapsto> hitP\<lparr>obj_id := untracked, ref_counter := 1,
                        data := (data hitP)\<lparr>hit_energy := 9\<rparr>\<rparr>]
   \<and> deref (Some 0) [0 \<mapsto> hitP,
            1 \<mapsto> hitP\<lparr>obj_id := untracked, ref_counter := 1,
                        data := (data hitP)\<lparr>hit_energy := 9\<rparr>\<rparr>] = Inr hitP"
  using clone_fresh_and_independent [of "[0 \<mapsto> hitP]" 0 hitP 1 untracked]
  by (simp add: deref_def)

section \<open>Properties of the relation ranges\<close>

lemmas rt_defs = addClusters_def Clusters_begin_def Clusters_end_def Clusters_range_def
  deref_def handle_update_def advance_def bindF_def

text \<open>
  Between two iterators of the vector in order, the loop reads exactly the elements
  from the first up to the second; started behind its end iterator it runs out of
  the vector.
\<close>

lemma traverse_forward:
  "0 \<le> b \<Longrightarrow> b \<le> e \<Longrightarrow> e \<le> int (length v) \<Longrightarrow>
   traverse v b e = Inr (take (nat (e - b)) (drop (nat b) v))"
proof (induction v b e rule: traverse.induct)
  case (1 v it end_it)
  show ?case
  proof (cases "it = end_it")
    case True
    then show ?thesis by (simp add: traverse.simps)
  next
    case False
    with "1.prems" have lt: "it < int (length v)" and nn: "0 \<le> it" by auto
    have step: "traverse v (it + 1) end_it
                  = Inr (take (nat (end_it - (it + 1))) (drop (nat (it + 1)) v))"
      using "1.IH" False lt nn "1.prems" by simp
    have len: "nat it < length v" using lt nn by simp
    have n1: "nat (end_it - it) = Suc (nat (end_it - (it + 1)))"
      using False "1.prems" by simp
    have n2: "nat (it + 1) = Suc (nat it)" using nn by simp
    have "take (nat (end_it - it)) (drop (nat it) v)
            = v ! nat it # take (nat (end_it - (it + 1))) (drop (nat (it + 1)) v)"
      using len by (simp add: n1 n2 Cons_nth_drop_Suc [symmetric])
    then show ?thesis
      using False lt nn step by (subst traverse.simps) simp
  qed
qed

lemma traverse_backward:
  "e < b \<Longrightarrow> traverse v b e = Inl IteratorOutOfRange"
proof (induction v b e rule: traverse.induct)
  case (1 v it end_it)
  then show ?case
    by (subst traverse.simps) auto
qed

lemma worldE_simps:
  "objs (worldE v b e) 0 = Some recE" "objs (worldE v b e) (Suc 0) = Some (recF b e)"
  "vecs_Clusters (worldE v b e) 0 = Some v"
  "m_Clusters recE = Some 0" "m_Clusters (recF b e) = Some 0"
  "data_Clusters_begin (data recE) = 0" "data_Clusters_end (data recE) = 0"
  "data_Clusters_begin (data (recF b e)) = b" "data_Clusters_end (data (recF b e)) = e"
  by (simp_all add: worldE_def recE_def recF_def)

lemma index_succ_plain: "0 \<le> i \<Longrightarrow> i < 4294967295 \<Longrightarrow> index_succ i = i + 1"
  by (simp add: index_succ_def)

lemma take_drop_prefix:
  "b + n \<le> length xs \<Longrightarrow> take n (drop b (xs @ ys)) = take n (drop b xs)"
  by simp

text \<open>
  \<^verbatim>\<open>addRefs\<close> does for \<^verbatim>\<open>Refs\<close> what \<^verbatim>\<open>addClusters\<close> does for \<^verbatim>\<open>Clusters\<close>, and counts
  the copy of the component it stores.
\<close>

lemma addRefs_appends:
  assumes "objs W p = Some ob" and "m_Refs ob = Some a" and "vecs_Refs W a = Some v"
    and "objs W c = Some cb" and "c \<noteq> p"
  shows "addRefs (Some p) (Some c) W
           = Inr (W\<lparr>objs := (objs W)
                      (c \<mapsto> cb\<lparr>ref_counter := ref_counter cb + 1\<rparr>,
                       p \<mapsto> ob\<lparr>data := (data ob)\<lparr>data_Refs_end := index_succ (data_Refs_end (data ob))\<rparr>\<rparr>),
                    vecs_Refs := (vecs_Refs W)(a \<mapsto> v @ [Some c])\<rparr>)"
  using assms
  by (simp add: addRefs_def deref_def handle_copy_def acquire_def handle_update_def)

text \<open>
  Claim C5, as stated: \<open>addX\<close> appends to the shared vector and increments the end
  index of the record, so that for two records \<open>r0\<close>, \<open>r1\<close> on one initially empty
  vector the calls \<open>r0.addX(a)\<close>, \<open>r0.addX(b)\<close>, \<open>r1.addX(c)\<close> leave \<open>r0\<close> covering \<open>a, b\<close>
  and \<open>r1\<close> covering exactly \<open>c\<close>, disjoint from \<open>r0\<close>. It fails: \<open>addX\<close> never moves
  \<open>begin\<close>, so with both stored ranges \<open>[0, 0)\<close> the range of \<open>r1\<close> becomes \<open>[0, 1)\<close>, which
  covers \<open>a\<close> (here 10), not \<open>c\<close> (here 30), and overlaps the range of \<open>r0\<close>.
\<close>

theorem add_shared_vector_counterexample:
  "bindF (bindF (bindF (addClusters (Some 0) 10 (worldE [] 0 0)) (addClusters (Some 0) 20))
            (addClusters (Some 1) 30)) (Clusters_range (Some 0)) = Inr [10, 20]
   \<and> bindF (bindF (bindF (addClusters (Some 0) 10 (worldE [] 0 0)) (addClusters (Some 0) 20))
            (addClusters (Some 1) 30)) (Clusters_range (Some 1)) = Inr [10]
   \<and> bindF (bindF (bindF (addClusters (Some 0) 10 (worldE [] 0 0)) (addClusters (Some 0) 20))
            (addClusters (Some 1) 30)) (Clusters_range (Some 1)) \<noteq> Inr [30]"
  by (simp add: rt_defs index_succ_def worldE_def recE_def recF_def traverse.simps)

text \<open>The accessors and the loop on a stored range that lies within the vector.\<close>

lemma Clusters_accessors_live:
  assumes "objs W p = Some ob" and "m_Clusters ob = Some a" and "vecs_Clusters W a = Some u"
    and "data_Clusters_begin (data ob) = b" and "data_Clusters_end (data ob) = e"
    and "0 \<le> b" and "b \<le> e" and "1 \<le> e" and "e \<le> int (length u)"
  shows "Clusters_begin (Some p) W = Inr b"
    and "Clusters_end (Some p) W = Inr e"
    and "Clusters_range (Some p) W = Inr (take (nat (e - b)) (drop (nat b) u))"
  using assms by (simp_all add: rt_defs traverse_forward)

text \<open>One call, and the three calls of the sequence on two records of one vector.\<close>

lemma addClusters_live:
  assumes "objs W p = Some ob" and "m_Clusters ob = Some a" and "vecs_Clusters W a = Some v"
  shows "addClusters (Some p) x W
           = Inr (W\<lparr>objs := (objs W)(p \<mapsto> ob\<lparr>data := (data ob)\<lparr>data_Clusters_end :=
                                        index_succ (data_Clusters_end (data ob))\<rparr>\<rparr>),
                    vecs_Clusters := (vecs_Clusters W)(a \<mapsto> v @ [x])\<rparr>)"
  using assms by (simp add: rt_defs)

lemma add_sequence_state:
  assumes "objs W p0 = Some ob0" and "objs W p1 = Some ob1" and "p1 \<noteq> p0"
    and "m_Clusters ob0 = Some a" and "m_Clusters ob1 = Some a"
    and "vecs_Clusters W a = Some v"
  shows "bindF (bindF (addClusters (Some p0) x W) (addClusters (Some p0) y))
                 (addClusters (Some p1) z)
      = Inr (W\<lparr>objs := (objs W)
                  (p0 \<mapsto> ob0\<lparr>data := (data ob0)\<lparr>data_Clusters_end :=
                                  index_succ (index_succ (data_Clusters_end (data ob0)))\<rparr>\<rparr>,
                   p1 \<mapsto> ob1\<lparr>data := (data ob1)\<lparr>data_Clusters_end :=
                                  index_succ (data_Clusters_end (data ob1))\<rparr>\<rparr>),
               vecs_Clusters := (vecs_Clusters W)(a \<mapsto> v @ [x, y, z])\<rparr>)"
  using assms by (simp add: rt_defs)

lemma add_sequence_ranges:
  assumes r0: "objs W p0 = Some ob0" and r1: "objs W p1 = Some ob1" and ne: "p1 \<noteq> p0"
    and v0: "m_Clusters ob0 = Some a" and v1: "m_Clusters ob1 = Some a"
    and vec: "vecs_Clusters W a = Some v"
    and len: "int (length v) < 4294967294"
    and b0: "0 \<le> data_Clusters_begin (data ob0)"
      "data_Clusters_begin (data ob0) \<le> data_Clusters_end (data ob0)"
      "data_Clusters_end (data ob0) \<le> int (length v)"
    and b1: "0 \<le> data_Clusters_begin (data ob1)"
      "data_Clusters_begin (data ob1) \<le> data_Clusters_end (data ob1)"
      "data_Clusters_end (data ob1) \<le> int (length v)"
  shows "bindF (bindF (bindF (addClusters (Some p0) x W) (addClusters (Some p0) y))
                 (addClusters (Some p1) z)) (Clusters_begin (Some p0))
                = Inr (data_Clusters_begin (data ob0))"
    and "bindF (bindF (bindF (addClusters (Some p0) x W) (addClusters (Some p0) y))
                 (addClusters (Some p1) z)) (Clusters_end (Some p0))
                = Inr (data_Clusters_end (data ob0) + 2)"
    and "bindF (bindF (bindF (addClusters (Some p0) x W) (addClusters (Some p0) y))
                 (addClusters (Some p1) z)) (Clusters_range (Some p0))
                = Inr (take (nat (data_Clusters_end (data ob0) + 2 - data_Clusters_begin (data ob0)))
                         (drop (nat (data_Clusters_begin (data ob0))) (v @ [x, y])))"
    and "bindF (bindF (bindF (addClusters (Some p0) x W) (addClusters (Some p0) y))
                 (addClusters (Some p1) z)) (Clusters_begin (Some p1))
                = Inr (data_Clusters_begin (data ob1))"
    and "bindF (bindF (bindF (addClusters (Some p0) x W) (addClusters (Some p0) y))
                 (addClusters (Some p1) z)) (Clusters_end (Some p1))
                = Inr (data_Clusters_end (data ob1) + 1)"
    and "bindF (bindF (bindF (addClusters (Some p0) x W) (addClusters (Some p0) y))
                 (addClusters (Some p1) z)) (Clusters_range (Some p1))
                = Inr (take (nat (data_Clusters_end (data ob1) + 1 - data_Clusters_begin (data ob1)))
                         (drop (nat (data_Clusters_begin (data ob1))) (v @ [x])))"
proof -
  let ?b0 = "data_Clusters_begin (data ob0)" and ?e0 = "data_Clusters_end (data ob0)"
  let ?b1 = "data_Clusters_begin (data ob1)" and ?e1 = "data_Clusters_end (data ob1)"
  define ob0' where "ob0' = ob0\<lparr>data := (data ob0)\<lparr>data_Clusters_end := ?e0 + 2\<rparr>\<rparr>"
  define ob1' where "ob1' = ob1\<lparr>data := (data ob1)\<lparr>data_Clusters_end := ?e1 + 1\<rparr>\<rparr>"
  define W3 where "W3 = W\<lparr>objs := (objs W)(p0 \<mapsto> ob0', p1 \<mapsto> ob1'),
                          vecs_Clusters := (vecs_Clusters W)(a \<mapsto> v @ [x, y, z])\<rparr>"
  have s0: "index_succ (index_succ ?e0) = ?e0 + 2"
    using b0 len by (simp add: index_succ_plain)
  have s1: "index_succ ?e1 = ?e1 + 1"
    using b1 len by (simp add: index_succ_plain)
  have seq: "bindF (bindF (addClusters (Some p0) x W) (addClusters (Some p0) y))
                 (addClusters (Some p1) z) = Inr W3"
    using add_sequence_state [OF r0 r1 ne v0 v1 vec, of x y z]
    by (simp add: s0 s1 W3_def ob0'_def ob1'_def)
  have run: "bindF (bindF (bindF (addClusters (Some p0) x W) (addClusters (Some p0) y))
                 (addClusters (Some p1) z)) f = f W3" for f :: "'a world \<Rightarrow> fault + 'r"
    unfolding seq by (simp add: bindF_def)
  have o0: "objs W3 p0 = Some ob0'" and o1: "objs W3 p1 = Some ob1'"
    and u: "vecs_Clusters W3 a = Some (v @ [x, y, z])"
    using ne by (simp_all add: W3_def)
  have m0: "m_Clusters ob0' = Some a" and m1: "m_Clusters ob1' = Some a"
    using v0 v1 by (simp_all add: ob0'_def ob1'_def)
  have f0: "data_Clusters_begin (data ob0') = ?b0" "data_Clusters_end (data ob0') = ?e0 + 2"
    and f1: "data_Clusters_begin (data ob1') = ?b1" "data_Clusters_end (data ob1') = ?e1 + 1"
    by (simp_all add: ob0'_def ob1'_def)
  have in0: "0 \<le> ?b0" "?b0 \<le> ?e0 + 2" "1 \<le> ?e0 + 2" "?e0 + 2 \<le> int (length (v @ [x, y, z]))"
    using b0 by simp_all
  have in1: "0 \<le> ?b1" "?b1 \<le> ?e1 + 1" "1 \<le> ?e1 + 1" "?e1 + 1 \<le> int (length (v @ [x, y, z]))"
    using b1 by simp_all
  note acc0 = Clusters_accessors_live [OF o0 m0 u f0 in0]
  note acc1 = Clusters_accessors_live [OF o1 m1 u f1 in1]
  have t0: "take (nat (?e0 + 2 - ?b0)) (drop (nat ?b0) (v @ [x, y, z]))
              = take (nat (?e0 + 2 - ?b0)) (drop (nat ?b0) (v @ [x, y]))"
    using take_drop_prefix [of "nat ?b0" "nat (?e0 + 2 - ?b0)" "v @ [x, y]" "[z]"] b0
    by simp
  have t1: "take (nat (?e1 + 1 - ?b1)) (drop (nat ?b1) (v @ [x, y, z]))
              = take (nat (?e1 + 1 - ?b1)) (drop (nat ?b1) (v @ [x]))"
    using take_drop_prefix [of "nat ?b1" "nat (?e1 + 1 - ?b1)" "v @ [x]" "[y, z]"] b1
    by simp
  show "bindF (bindF (bindF (addClusters (Some p0) x W) (addClusters (Some p0) y))
                 (addClusters (Some p1) z)) (Clusters_begin (Some p0)) = Inr ?b0"
    unfolding run by (rule acc0(1))
  show "bindF (bindF (bindF (addClusters (Some p0) x W) (addClusters (Some p0) y))
                 (addClusters (Some p1) z)) (Clusters_end (Some p0)) = Inr (?e0 + 2)"
    unfolding run by (rule acc0(2))
  show "bindF (bindF (bindF (addClusters (Some p0) x W) (addClusters (Some p0) y))
                 (addClusters (Some p1) z)) (Clusters_range (Some p0))
          = Inr (take (nat (?e0 + 2 - ?b0)) (drop (nat ?b0) (v @ [x, y])))"
    unfolding run using acc0(3) by (simp only: t0)
  show "bindF (bindF (bindF (addClusters (Some p0) x W) (addClusters (Some p0) y))
                 (addClusters (Some p1) z)) (Clusters_begin (Some p1)) = Inr ?b1"
    unfolding run by (rule acc1(1))
  show "bindF (bindF (bindF (addClusters (Some p0) x W) (addClusters (Some p0) y))
                 (addClusters (Some p1) z)) (Clusters_end (Some p1)) = Inr (?e1 + 1)"
    unfolding run by (rule acc1(2))
  show "bindF (bindF (bindF (addClusters (Some p0) x W) (addClusters (Some p0) y))
                 (addClusters (Some p1) z)) (Clusters_range (Some p1))
          = Inr (take (nat (?e1 + 1 - ?b1)) (drop (nat ?b1) (v @ [x])))"
    unfolding run using acc1(3) by (simp only: t1)
qed

text \<open>
  Claim C5, amended. For every record, \<open>addX(component)\<close> appends the component to
  the vector the payload of the record points to and replaces the stored end index
  of that record by its successor, which is the end index plus exactly one for every
  index from 0 below 4294967295; the begin index stays as it is. Consequently, for
  records \<open>r0\<close> and \<open>r1\<close> that share one vector \<open>v\<close> of fewer than 4294967294 elements
  and whose stored ranges \<open>[b0, e0)\<close> and \<open>[b1, e1)\<close> lie within \<open>v\<close>, the calls
  \<open>r0.addX(x)\<close>, \<open>r0.addX(y)\<close>, \<open>r1.addX(z)\<close> leave the range of \<open>r0\<close> as
  \<open>[b0, e0 + 2)\<close>, read from \<open>v\<close> followed by \<open>x, y\<close>, and the range of \<open>r1\<close> as
  \<open>[b1, e1 + 1)\<close>, read from \<open>v\<close> followed by \<open>x\<close> alone: the range of \<open>r1\<close> never
  reaches \<open>z\<close>. In particular, on an initially empty vector, both stored ranges
  being \<open>[0, 0)\<close>, the range of \<open>r0\<close> is \<open>[0, 2)\<close> and covers exactly \<open>x\<close> then \<open>y\<close>,
  and the range of \<open>r1\<close> is \<open>[0, 1)\<close> and covers exactly \<open>x\<close>, inside the range of \<open>r0\<close>.
\<close>

theorem add_appends_and_advances_end:
  assumes r0: "objs W p0 = Some ob0" and v0: "m_Clusters ob0 = Some a"
    and vec: "vecs_Clusters W a = Some v"
  shows "addClusters (Some p0) x W
           = Inr (W\<lparr>objs := (objs W)(p0 \<mapsto> ob0\<lparr>data := (data ob0)\<lparr>data_Clusters_end :=
                                        index_succ (data_Clusters_end (data ob0))\<rparr>\<rparr>),
                    vecs_Clusters := (vecs_Clusters W)(a \<mapsto> v @ [x])\<rparr>)
         \<and> (0 \<le> data_Clusters_end (data ob0) \<and> data_Clusters_end (data ob0) < 4294967295 \<longrightarrow>
              index_succ (data_Clusters_end (data ob0)) = data_Clusters_end (data ob0) + 1)
         \<and> (objs W p1 = Some ob1 \<and> p1 \<noteq> p0 \<and> m_Clusters ob1 = Some a
              \<and> int (length v) < 4294967294
              \<and> 0 \<le> data_Clusters_begin (data ob0)
              \<and> data_Clusters_begin (data ob0) \<le> data_Clusters_end (data ob0)
              \<and> data_Clusters_end (data ob0) \<le> int (length v)
              \<and> 0 \<le> data_Clusters_begin (data ob1)
              \<and> data_Clusters_begin (data ob1) \<le> data_Clusters_end (data ob1)
              \<and> data_Clusters_end (data ob1) \<le> int (length v) \<longrightarrow>
              bindF (bindF (bindF (addClusters (Some p0) x W) (addClusters (Some p0) y))
                 (addClusters (Some p1) z)) (Clusters_begin (Some p0))
                = Inr (data_Clusters_begin (data ob0))
            \<and> bindF (bindF (bindF (addClusters (Some p0) x W) (addClusters (Some p0) y))
                 (addClusters (Some p1) z)) (Clusters_end (Some p0))
                = Inr (data_Clusters_end (data ob0) + 2)
            \<and> bindF (bindF (bindF (addClusters (Some p0) x W) (addClusters (Some p0) y))
                 (addClusters (Some p1) z)) (Clusters_range (Some p0))
                = Inr (take (nat (data_Clusters_end (data ob0) + 2 - data_Clusters_begin (data ob0)))
                         (drop (nat (data_Clusters_begin (data ob0))) (v @ [x, y])))
            \<and> bindF (bindF (bindF (addClusters (Some p0) x W) (addClusters (Some p0) y))
                 (addClusters (Some p1) z)) (Clusters_begin (Some p1))
                = Inr (data_Clusters_begin (data ob1))
            \<and> bindF (bindF (bindF (addClusters (Some p0) x W) (addClusters (Some p0) y))
                 (addClusters (Some p1) z)) (Clusters_end (Some p1))
                = Inr (data_Clusters_end (data ob1) + 1)
            \<and> bindF (bindF (bindF (addClusters (Some p0) x W) (addClusters (Some p0) y))
                 (addClusters (Some p1) z)) (Clusters_range (Some p1))
                = Inr (take (nat (data_Clusters_end (data ob1) + 1 - data_Clusters_begin (data ob1)))
                         (drop (nat (data_Clusters_begin (data ob1))) (v @ [x]))))
         \<and> (objs W p1 = Some ob1 \<and> p1 \<noteq> p0 \<and> m_Clusters ob1 = Some a \<and> v = []
              \<and> data_Clusters_begin (data ob0) = 0 \<and> data_Clusters_end (data ob0) = 0
              \<and> data_Clusters_begin (data ob1) = 0 \<and> data_Clusters_end (data ob1) = 0 \<longrightarrow>
              bindF (bindF (bindF (addClusters (Some p0) x W) (addClusters (Some p0) y))
                 (addClusters (Some p1) z)) (Clusters_range (Some p0)) = Inr [x, y]
            \<and> bindF (bindF (bindF (addClusters (Some p0) x W) (addClusters (Some p0) y))
                 (addClusters (Some p1) z)) (Clusters_end (Some p0)) = Inr 2
            \<and> bindF (bindF (bindF (addClusters (Some p0) x W) (addClusters (Some p0) y))
                 (addClusters (Some p1) z)) (Clusters_range (Some p1)) = Inr [x]
            \<and> bindF (bindF (bindF (addClusters (Some p0) x W) (addClusters (Some p0) y))
                 (addClusters (Some p1) z)) (Clusters_end (Some p1)) = Inr 1)"
proof -
  have one: "addClusters (Some p0) x W
           = Inr (W\<lparr>objs := (objs W)(p0 \<mapsto> ob0\<lparr>data := (data ob0)\<lparr>data_Clusters_end :=
                                        index_succ (data_Clusters_end (data ob0))\<rparr>\<rparr>),
                    vecs_Clusters := (vecs_Clusters W)(a \<mapsto> v @ [x])\<rparr>)"
    using r0 v0 vec by (rule addClusters_live)
  note general = add_sequence_ranges [OF r0 _ _ v0 _ vec, of p1 ob1 x y z]
  show ?thesis
    apply (intro conjI impI)
              apply (rule one)
             apply (simp add: index_succ_plain)
            apply (simp_all add: general)
    done
qed

theorem add_appends_and_advances_end_witness:
  "bindF (bindF (bindF (addClusters (Some 0) 10 (worldE [7] 0 1)) (addClusters (Some 0) 20))
            (addClusters (Some 1) 30)) (Clusters_range (Some 0)) = Inr [7, 10]
   \<and> bindF (bindF (bindF (addClusters (Some 0) 10 (worldE [7] 0 1)) (addClusters (Some 0) 20))
            (addClusters (Some 1) 30)) (Clusters_range (Some 1)) = Inr [7, 10]
   \<and> bindF (bindF (bindF (addClusters (Some 0) 10 (worldE [7] 0 1)) (addClusters (Some 0) 20))
            (addClusters (Some 1) 30)) (Clusters_end (Some 1)) = Inr 2"
  using add_appends_and_advances_end
    [where W = "worldE [7] 0 1" and ?p0.0 = 0 and ?ob0.0 = recE and a = 0 and v = "[7]"
       and ?p1.0 = "Suc 0" and ?ob1.0 = "recF 0 1" and x = 10 and y = 20 and z = 30,
     THEN conjunct2, THEN conjunct2, THEN conjunct1]
  by (simp add: worldE_simps)

text \<open>
  Claim C8, as stated: reading a relation range with \<open>begin > end\<close>, or with \<open>end\<close>
  beyond the vector, raises a \<open>RelationRangeError\<close> instead of an unchecked traversal.
  It fails: the accessors check nothing and raise nothing. On the vector
  \<open>[10, 20, 30]\<close> with the stored range \<open>begin = 2\<close>, \<open>end = 1\<close> both accessors return
  normally, with the iterators at 2 and at 1, and the loop over them runs out of
  the vector; on the vector \<open>[10]\<close> with \<open>end = 5\<close> the iterator arithmetic of
  \<open>Clusters_end()\<close> itself leaves the vector.
\<close>

theorem accessors_raise_nothing_counterexample:
  "Clusters_begin (Some 1) (worldE [10, 20, 30] 2 1) = Inr 2
   \<and> Clusters_end (Some 1) (worldE [10, 20, 30] 2 1) = Inr 1
   \<and> Clusters_range (Some 1) (worldE [10, 20, 30] 2 1) = Inl IteratorOutOfRange
   \<and> Clusters_end (Some 1) (worldE [10] 0 5) = Inl IteratorOutOfRange"
  by (simp add: rt_defs worldE_def recE_def recF_def traverse.simps)

text \<open>
  Claim C8, amended. The accessors make no range check: for every record whose
  stored \<open>begin\<close> lies between 0 and the size of the vector and whose stored \<open>end\<close> lies
  between 1 and the size, \<open>X_begin()\<close> and \<open>X_end()\<close> return the iterators at \<open>begin\<close> and
  at \<open>end\<close> and raise nothing, also when \<open>begin > end\<close>; in that case the loop from
  the one to the other runs past the end of the vector unchecked.
\<close>

theorem accessors_unchecked:
  assumes "objs W p = Some ob" and "m_Clusters ob = Some a" and "vecs_Clusters W a = Some v"
    and "data_Clusters_begin (data ob) = b" and "data_Clusters_end (data ob) = e"
    and "0 \<le> b" and "b \<le> int (length v)" and "1 \<le> e" and "e \<le> int (length v)"
  shows "Clusters_begin (Some p) W = Inr b \<and> Clusters_end (Some p) W = Inr e
         \<and> (e < b \<longrightarrow> Clusters_range (Some p) W = Inl IteratorOutOfRange)"
  using assms by (simp add: rt_defs traverse_backward)

theorem accessors_unchecked_witness:
  "Clusters_begin (Some 1) (worldE [10, 20, 30] 2 1) = Inr 2
   \<and> Clusters_end (Some 1) (worldE [10, 20, 30] 2 1) = Inr 1
   \<and> Clusters_range (Some 1) (worldE [10, 20, 30] 2 1) = Inl IteratorOutOfRange"
  using accessors_unchecked [of "worldE [10, 20, 30] 2 1" 1 "recF 2 1" 0 "[10, 20, 30]" 2 1]
  by (simp add: worldE_simps)



section \<open>Properties of the schema evolution registry\<close>

lemma getSlot_setSlot: "getSlot (setSlot t v entry) v = Some entry"
  by (simp add: getSlot_def setSlot_def)

lemma setSlot_setSlot: "setSlot (setSlot t v e1) v e2 = setSlot t v e2"
  by (simp add: setSlot_def)

lemma trackRegistry_eq:
  "trackRegistry cv =
     \<lparr>m_versionMapIndices = [''Track'' \<mapsto> \<lparr>currentVersion = cv, index = 0\<rparr>],
      m_evolutionFuncs = [[None, Some (AutoGenerated, countingNoOp)]]\<rparr>"
  by (simp add: trackRegistry_def registerEvolutionFunc_def emptyRegistry_def setSlot_def)

text \<open>The no-op function changes neither the buffers nor anything else.\<close>

lemma noOp_identity: "noOpSchemaEvolution b v w = (b, w)"
  by (simp add: noOpSchemaEvolution_def)

text \<open>
  Claim C2. For every datatype \<open>T\<close> registered with current version \<open>V\<close> and every
  buffers value \<open>b\<close>, \<open>evolveBuffers(b, V, T)\<close> returns \<open>b\<close> itself and leaves the state
  outside the registry as it was: no registered function has run (a function that
  counts its calls would have changed that state) and nothing was allocated.
\<close>

theorem evolveBuffers_current_version:
  assumes "m_versionMapIndices r T = Some mi" and "currentVersion mi = V"
  shows "evolveBuffers r b V T w = (Inr b, w)"
  using assms by (simp add: evolveBuffers_def)

theorem evolveBuffers_current_version_witness:
  "evolveBuffers (trackRegistry 2) [5, 6] 2 ''Track'' 0 = (Inr [5, 6], 0)
   \<and> evolveBuffers (trackRegistry 2) [5, 6] 1 ''Track'' 0 = (Inr [5, 6], 1)"
proof -
  have "m_versionMapIndices (trackRegistry 2) ''Track'' = Some \<lparr>currentVersion = 2, index = 0\<rparr>"
    by (simp add: trackRegistry_eq)
  then have "evolveBuffers (trackRegistry 2) [5, 6] 2 ''Track'' 0 = (Inr [5, 6], 0)"
    by (rule evolveBuffers_current_version) simp
  moreover have "evolveBuffers (trackRegistry 2) [5, 6] 1 ''Track'' 0 = (Inr [5, 6], 1)"
    by (simp add: trackRegistry_eq evolveBuffers_def lookupFunc_def getTable_def getSlot_def
        NoEvolutionAvailable_def countingNoOp_def)
  ultimately show ?thesis by simp
qed

text \<open>
  Claim C3. For every type \<open>T\<close> and version \<open>k\<close> other than the registered current
  version of \<open>T\<close>, if no function is registered for \<open>(T, k)\<close> then
  \<open>evolveBuffers(b, k, T)\<close> fails with \<open>LookupMiss\<close>, leaving the outside state as it
  was; its result is not the input buffers returned as if by identity, which is what
  the request at the current version returns.
\<close>

theorem evolveBuffers_lookup_miss:
  assumes "m_versionMapIndices r T = Some mi" and "k \<noteq> currentVersion mi"
    and "lookupFunc r mi k = None"
  shows "evolveBuffers r b k T w = (Inl LookupMiss, w)
         \<and> evolveBuffers r b k T w \<noteq> (Inr b, w)
         \<and> evolveBuffers r b (currentVersion mi) T w = (Inr b, w)"
  using assms by (simp add: evolveBuffers_def)

theorem evolveBuffers_lookup_miss_witness:
  "evolveBuffers (trackRegistry 3) [5, 6] 2 ''Track'' 0 = (Inl LookupMiss, 0)
   \<and> evolveBuffers (trackRegistry 3) [5, 6] 2 ''Track'' 0 \<noteq> (Inr [5, 6], 0)
   \<and> evolveBuffers (trackRegistry 3) [5, 6] 3 ''Track'' 0 = (Inr [5, 6], 0)"
proof -
  have a: "m_versionMapIndices (trackRegistry 3) ''Track'' = Some \<lparr>currentVersion = 3, index = 0\<rparr>"
    by (simp add: trackRegistry_eq)
  have b: "(2 :: SchemaVersionT) \<noteq> currentVersion \<lparr>currentVersion = 3, index = 0\<rparr>"
    by simp
  have c: "lookupFunc (trackRegistry 3) \<lparr>currentVersion = 3, index = 0\<rparr> 2 = None"
    by (simp add: trackRegistry_eq lookupFunc_def getTable_def getSlot_def NoEvolutionAvailable_def)
  from evolveBuffers_lookup_miss [OF a b c, of "[5, 6]" 0] show ?thesis by simp
qed

text \<open>
  Claim C4. For every type \<open>T\<close> and slot \<open>v\<close> (other than the current version \<open>cv\<close>)
  that is open, in a registry whose number of tables is below the tombstone:
  registering an \<open>AutoGenerated\<close> function \<open>fa\<close> and a \<open>UserDefined\<close> function \<open>fu\<close> for
  \<open>(T, v)\<close> leaves the same registry in either order, and in either order a
  following \<open>evolveBuffers\<close> for the slot calls \<open>fu\<close>, once: the \<open>UserDefined\<close>
  registration overrides the \<open>AutoGenerated\<close> one, and the later \<open>AutoGenerated\<close>
  registration does not override the \<open>UserDefined\<close> one.
\<close>

theorem register_priority_decides:
  assumes cap: "length (m_evolutionFuncs r) < NoEvolutionAvailable"
    and op: "slotOpen r T v cv" and ne: "v \<noteq> cv"
  shows "snd (registerEvolutionFunc T v cv fu UserDefined
               (snd (registerEvolutionFunc T v cv fa AutoGenerated r)))
         = snd (registerEvolutionFunc T v cv fa AutoGenerated
               (snd (registerEvolutionFunc T v cv fu UserDefined r)))
       \<and> evolveBuffers (snd (registerEvolutionFunc T v cv fu UserDefined
               (snd (registerEvolutionFunc T v cv fa AutoGenerated r)))) b v T w
         = (Inr (fst (fu b v w)), snd (fu b v w))
       \<and> evolveBuffers (snd (registerEvolutionFunc T v cv fa AutoGenerated
               (snd (registerEvolutionFunc T v cv fu UserDefined r)))) b v T w
         = (Inr (fst (fu b v w)), snd (fu b v w))"
proof (cases "m_versionMapIndices r T")
  case None
  then show ?thesis
    using assms
    by (simp add: registerEvolutionFunc_def slotOpen_def getTable_def getSlot_setSlot
        setSlot_setSlot evolveBuffers_def lookupFunc_def split: prod.splits)
next
  case (Some mi)
  show ?thesis
  proof (cases "getTable r mi")
    case None
    with Some show ?thesis
      using assms
      by (simp add: registerEvolutionFunc_def slotOpen_def getTable_def getSlot_setSlot
          setSlot_setSlot evolveBuffers_def lookupFunc_def split: prod.splits)
  next
    case table: (Some t)
    show ?thesis
    proof (cases "getSlot t v")
      case None
      with Some table show ?thesis
        using assms
        by (simp add: registerEvolutionFunc_def slotOpen_def getTable_def getSlot_setSlot
            setSlot_setSlot evolveBuffers_def lookupFunc_def split: prod.splits if_splits)
    next
      case held: (Some entry)
      obtain p f where "entry = (p, f)" by (cases entry)
      with Some table held show ?thesis
        using assms
        by (simp add: registerEvolutionFunc_def slotOpen_def getTable_def getSlot_setSlot
            setSlot_setSlot evolveBuffers_def lookupFunc_def split: prod.splits if_splits)
    qed
  qed
qed

theorem register_priority_decides_witness:
  "snd (registerEvolutionFunc ''Track'' 1 2 countingUser UserDefined
         (snd (registerEvolutionFunc ''Track'' 1 2 countingNoOp AutoGenerated emptyRegistry)))
     = snd (registerEvolutionFunc ''Track'' 1 2 countingNoOp AutoGenerated
         (snd (registerEvolutionFunc ''Track'' 1 2 countingUser UserDefined emptyRegistry)))
   \<and> evolveBuffers (snd (registerEvolutionFunc ''Track'' 1 2 countingUser UserDefined
         (snd (registerEvolutionFunc ''Track'' 1 2 countingNoOp AutoGenerated emptyRegistry))))
         [5] 1 ''Track'' 0 = (Inr [5, 1], 1)
   \<and> evolveBuffers (snd (registerEvolutionFunc ''Track'' 1 2 countingNoOp AutoGenerated
         (snd (registerEvolutionFunc ''Track'' 1 2 countingUser UserDefined emptyRegistry))))
         [5] 1 ''Track'' 0 = (Inr [5, 1], 1)"
proof -
  have a: "length (m_evolutionFuncs emptyRegistry) < NoEvolutionAvailable"
    by (simp add: emptyRegistry_def NoEvolutionAvailable_def)
  have b: "slotOpen emptyRegistry ''Track'' 1 2"
    by (simp add: slotOpen_def emptyRegistry_def)
  have c: "(1 :: SchemaVersionT) \<noteq> 2"
    by simp
  from register_priority_decides
    [OF a b c, where fa = countingNoOp and fu = countingUser and b = "[5]" and w = 0]
  show ?thesis
    by (simp add: countingUser_def)
qed

end
